theory Spec2Isabelle
  imports
    Main
    "HOL-Library.Char_ord"
    "HOL-Library.List_Lexorder"
    "HOL-Library.Product_Lexorder"
    "HOL-Library.AList"
    "HOL-Library.Multiset"
begin

section \<open>Cell values and their string form\<close>

text \<open>
  The comparator of \<^verbatim>\<open>1.2.0_250314_beta.py\<close> (method \<^verbatim>\<open>_comparator_two_sided_merge\<close>)
  works on a pandas data frame. A cell of the input is an integer, a string or a null
  (\<^verbatim>\<open>NaN\<close>/\<^verbatim>\<open>None\<close>, what \<^verbatim>\<open>pd.notna\<close> rejects). Floating point cells and date objects are
  outside this model: a date column is represented by strings or integers. pandas has
  no null among integers: a column in which it meets both holds floating point numbers.
  Where the code would compute with such numbers, or where its behaviour depends on
  whether a null is \<^verbatim>\<open>None\<close> or \<^verbatim>\<open>NaN\<close>, the model returns \<open>Unmodelled\<close>, which is not
  an exception of the code but the border of the model. A string is a list of code
  points below 256.
\<close>

datatype val = VInt int | VStr string | VNaN

text \<open>A cell of the output is a value, or the tuple of group keys of the column \<^verbatim>\<open>GROUP_KEYS\<close>.\<close>

datatype cell = Val val | Tuple "val list"

type_synonym dict = "(string \<times> val) list"

record 'a frame =
  columns :: "string list"
  rows :: "(string \<times> 'a) list list"

datatype error = KeyError | ValueError | TypeError | Unmodelled

datatype result = Styled "cell frame" | EmptyFrame

text \<open>\<^verbatim>\<open>str(val)\<close>: decimal digits for an integer (Python integers are unbounded; the
  interpreter's limit on the length of an integer's string form is not modelled).\<close>

definition digit_char :: "nat \<Rightarrow> char" where
  "digit_char n = ''0123456789'' ! n"

fun str_nat :: "nat \<Rightarrow> string" where
  "str_nat n = (if n < 10 then [digit_char n] else str_nat (n div 10) @ [digit_char (n mod 10)])"

declare str_nat.simps [simp del]

definition str_int :: "int \<Rightarrow> string" where
  "str_int i = (if i < 0 then CHR ''-'' # str_nat (nat (- i)) else str_nat (nat i))"

fun py_str :: "val \<Rightarrow> string" where
  "py_str (VInt i) = str_int i"
| "py_str (VStr s) = s"
| "py_str VNaN = ''nan''"

fun is_int :: "val \<Rightarrow> bool" where
  "is_int (VInt i) = True"
| "is_int v = False"

fun is_str :: "val \<Rightarrow> bool" where
  "is_str (VStr s) = True"
| "is_str v = False"

text \<open>\<^verbatim>\<open>sub in s\<close> on strings.\<close>

fun contains :: "string \<Rightarrow> string \<Rightarrow> bool" where
  "contains sub [] = (sub = [])"
| "contains sub (c # cs) = (take (length sub) (c # cs) = sub \<or> contains sub cs)"

definition MISSING :: val where
  "MISSING = VStr ''##MISSING##''"

text \<open>The f-string \<^verbatim>\<open>f"**{val}**"\<close>.\<close>

definition changed :: "val \<Rightarrow> val" where
  "changed v = VStr (''**'' @ py_str v @ ''**'')"

section \<open>Column lists of the comparator\<close>

definition sort_columns :: "string list" where
  "sort_columns = [''DET_ROW_NUM'', ''DET_WH_CUST_NO'', ''ACC_WH_ACC_NO'',
     ''REL_WH_SECNDRY_CUST_NO'', ''REL_CUST_KIR_TYP_CDE'']"

definition id_columns :: "string list" where
  "id_columns = [''DET_WH_CUST_NO'', ''ACC_WH_ACC_NO'', ''REL_WH_SECNDRY_CUST_NO'',
     ''REL_CUST_KIR_TYP_CDE'', ''ACTE_PERIOD_DTE'', ''ACC_RPT_PERIOD_DTE'',
     ''ACC_PERIOD_DTE'', ''ACC_LOAD_DTE'', ''ACC_LOAD_TIME'', ''REL_RPT_PERIOD_DTE'',
     ''REL_PERIOD_DTE'', ''REL_LOAD_DTE'', ''REL_LOAD_TIME'',
     ''ACC_REL_RPT_PERIOD_DTE'', ''ACC_REL_PERIOD_DTE'', ''ACC_REL_LOAD_DTE'',
     ''ACC_REL_LOAD_TIME'']"

definition merge_key_cols :: "string list" where
  "merge_key_cols = [''ACC_WH_ACC_NO'', ''REL_WH_SECNDRY_CUST_NO'', ''REL_CUST_KIR_TYP_CDE'']"

definition desired_order :: "string list" where
  "desired_order = [''DET_ROW_NUM'', ''DET_WH_CUST_NO'', ''ACC_WH_ACC_NO'',
     ''REL_WH_SECNDRY_CUST_NO'', ''REL_CUST_KIR_TYP_CDE'']"

section \<open>Rows, dictionaries and the pandas operations used\<close>

text \<open>\<^verbatim>\<open>row[col]\<close>: a row is an association list from column names to cells; a column the
  row does not hold reads as null, as in a frame built from dictionaries.\<close>

definition at :: "dict \<Rightarrow> string \<Rightarrow> val" where
  "at r c = (case map_of r c of Some v \<Rightarrow> v | None \<Rightarrow> VNaN)"

definition cell_at :: "(string \<times> cell) list \<Rightarrow> string \<Rightarrow> cell" where
  "cell_at r c = (case map_of r c of Some v \<Rightarrow> v | None \<Rightarrow> Val VNaN)"

text \<open>
  Sorting keys. pandas sorts a column with nulls last. Integers are ordered by value
  and strings by code point; where one column of codes mixes integers and strings,
  pandas puts the integers first. The function \<open>sort_values\<close> is \<^verbatim>\<open>df.sort_values(by=...)\<close> for a
  list of several columns, where pandas sorts the codes of the columns lexicographically
  and keeps the order of rows that agree on all of them. (The sort of one group by the
  version column alone is \<open>group_sort\<close> below.)
\<close>

fun val_key :: "val \<Rightarrow> nat \<times> int \<times> string" where
  "val_key (VInt i) = (0, i, [])"
| "val_key (VStr s) = (1, 0, s)"
| "val_key VNaN = (2, 0, [])"

definition sort_values :: "string list \<Rightarrow> dict list \<Rightarrow> dict list" where
  "sort_values by rs = sort_key (\<lambda>r. map (\<lambda>c. val_key (at r c)) by) rs"

text \<open>\<^verbatim>\<open>df.groupby(id_columns)\<close>: rows with a null in a key column are dropped, the groups
  come in the sorted order of their keys, and the rows of a group keep their order.\<close>

definition group_key :: "dict \<Rightarrow> val list" where
  "group_key r = map (at r) id_columns"

definition groupby :: "dict list \<Rightarrow> (val list \<times> dict list) list" where
  "groupby rs =
     (let keyed = filter (\<lambda>r. VNaN \<notin> set (group_key r)) rs
      in map (\<lambda>k. (k, filter (\<lambda>r. group_key r = k) keyed))
           (sort_key (map val_key) (remdups (map group_key keyed))))"

text \<open>
  \<^verbatim>\<open>sub_old.merge(sub_new, on=merge_key_cols, how="outer", suffixes=('_old', '_new'),
  indicator=True)\<close> for two frames with the same columns \<open>cols\<close>: the key columns keep
  their names, every other column appears once with each suffix, and the column
  \<^verbatim>\<open>_merge\<close> tells the side. The keys come sorted; rows with the same key on both sides
  give every combination, the left row varying slowest. pandas refuses a frame that
  already has a column \<^verbatim>\<open>_merge\<close>. A row without a partner has nulls in the columns of
  the other side; where such a column holds an integer in another row, pandas turns the
  integers of the column into floating point numbers (\<open>float_upcast\<close>), and the model
  stops. So does it for column names that are not distinct.
\<close>

definition merge_key :: "dict \<Rightarrow> val list" where
  "merge_key r = map (at r) merge_key_cols"

definition merged_row :: "string list \<Rightarrow> string \<Rightarrow> dict \<Rightarrow> (string \<Rightarrow> val) \<Rightarrow> (string \<Rightarrow> val) \<Rightarrow> dict" where
  "merged_row cols status keyrow old_val new_val =
     map (\<lambda>c. if c \<in> set merge_key_cols then (c, at keyrow c) else (c @ ''_old'', old_val c)) cols
     @ map (\<lambda>c. (c @ ''_new'', new_val c)) (filter (\<lambda>c. c \<notin> set merge_key_cols) cols)
     @ [(''_merge'', VStr status)]"

definition left_only_row :: "string list \<Rightarrow> dict \<Rightarrow> dict" where
  "left_only_row cols l = merged_row cols ''left_only'' l (at l) (\<lambda>c. VNaN)"

definition right_only_row :: "string list \<Rightarrow> dict \<Rightarrow> dict" where
  "right_only_row cols r = merged_row cols ''right_only'' r (\<lambda>c. VNaN) (at r)"

definition both_row :: "string list \<Rightarrow> dict \<Rightarrow> dict \<Rightarrow> dict" where
  "both_row cols l r = merged_row cols ''both'' l (at l) (at r)"

definition merge_keys :: "dict list \<Rightarrow> dict list \<Rightarrow> val list list" where
  "merge_keys sub_old sub_new =
     sort_key (map val_key) (remdups (map merge_key (sub_old @ sub_new)))"

definition merge_for_key :: "string list \<Rightarrow> dict list \<Rightarrow> dict list \<Rightarrow> val list \<Rightarrow> dict list" where
  "merge_for_key cols sub_old sub_new k =
     (let ls = filter (\<lambda>r. merge_key r = k) sub_old;
          rs = filter (\<lambda>r. merge_key r = k) sub_new
      in if rs = [] then map (left_only_row cols) ls
         else if ls = [] then map (right_only_row cols) rs
         else concat (map (\<lambda>l. map (both_row cols l) rs) ls))"

definition float_upcast :: "string list \<Rightarrow> dict list \<Rightarrow> dict list \<Rightarrow> bool" where
  "float_upcast cols xs ys =
     (list_ex (\<lambda>x. merge_key x \<notin> set (map merge_key ys)) xs
      \<and> list_ex (\<lambda>y. list_ex (\<lambda>c. c \<notin> set merge_key_cols \<and> is_int (at y c)) cols) ys)"

definition outer_merge :: "string list \<Rightarrow> dict list \<Rightarrow> dict list \<Rightarrow> error + dict list" where
  "outer_merge cols sub_old sub_new =
     (if ''_merge'' \<in> set cols then Inl ValueError
      else if \<not> distinct cols \<or> float_upcast cols sub_old sub_new \<or> float_upcast cols sub_new sub_old
        then Inl Unmodelled
      else Inr (concat (map (merge_for_key cols sub_old sub_new) (merge_keys sub_old sub_new))))"

section \<open>The comparison of one merged row\<close>

text \<open>
  \<^verbatim>\<open>build_side_dict(row, sub_df, suffix, ref_num)\<close>: the dictionary of one side of a merged
  row. Assigning \<^verbatim>\<open>d[col]\<close> replaces the entry of a key the dictionary has and appends a
  new key otherwise, which is \<^const>\<open>AList.update\<close>.
\<close>

definition side_value :: "dict \<Rightarrow> string \<Rightarrow> string \<Rightarrow> val" where
  "side_value row suffix col =
     (if col \<in> set merge_key_cols then at row col
      else (case map_of row (col @ suffix) of
              Some v \<Rightarrow> if v \<noteq> VNaN then v else MISSING
            | None \<Rightarrow> MISSING))"

definition build_side_dict :: "dict \<Rightarrow> string list \<Rightarrow> string \<Rightarrow> val \<Rightarrow> dict" where
  "build_side_dict row cols suffix ref_num =
     AList.update ''DET_ROW_NUM'' ref_num
       (fold (\<lambda>col d. AList.update col (side_value row suffix col) d) cols [])"

text \<open>The dictionary \<^verbatim>\<open>{col: "##MISSING##" for col in sub.columns}\<close> with its version set.\<close>

definition missing_dict :: "string list \<Rightarrow> val \<Rightarrow> dict" where
  "missing_dict cols ref_num =
     AList.update ''DET_ROW_NUM'' ref_num
       (fold (\<lambda>col d. AList.update col MISSING d) cols [])"

text \<open>The body of the loop \<^verbatim>\<open>for col in old_dict\<close> of the branch \<^verbatim>\<open>both\<close>, for one column,
  on the pair of dictionaries.\<close>

definition compare_col :: "val \<Rightarrow> val \<Rightarrow> string \<Rightarrow> dict \<times> dict \<Rightarrow> dict \<times> dict" where
  "compare_col new_num group_max col ds =
     (let old_dict = fst ds; new_dict = snd ds in
      if col = ''DET_ROW_NUM'' then ds
      else (case map_of new_dict col of
          None \<Rightarrow> ds
        | Some val_new \<Rightarrow>
            (let val_old = at old_dict col in
             if val_old = MISSING \<and> val_new \<noteq> MISSING
               then (old_dict, AList.update col (changed val_new) new_dict)
             else if val_new = MISSING \<and> val_old \<noteq> MISSING
               then (AList.update col (changed val_old) old_dict, new_dict)
             else if val_old \<noteq> val_new \<and> \<not> contains ''##'' (py_str val_old)
                       \<and> \<not> contains ''##'' (py_str val_new)
               then (AList.update col (changed val_old) old_dict,
                     if new_num \<noteq> group_max
                       then AList.update col (changed val_new) new_dict else new_dict)
             else ds)))"

definition compare_dicts :: "val \<Rightarrow> val \<Rightarrow> dict \<Rightarrow> dict \<Rightarrow> dict \<times> dict" where
  "compare_dicts new_num group_max old_dict new_dict =
     fold (compare_col new_num group_max) (map fst old_dict) (old_dict, new_dict)"

text \<open>The two dictionaries of one merged row (the body of \<^verbatim>\<open>for idx, row in merged.iterrows()\<close>).\<close>

definition diff_of_row :: "string list \<Rightarrow> val \<Rightarrow> val \<Rightarrow> val \<Rightarrow> dict \<Rightarrow> dict \<times> dict" where
  "diff_of_row cols group_max old_num new_num row =
     (let merge_status = at row ''_merge'' in
      if merge_status = VStr ''left_only''
        then (build_side_dict row cols ''_old'' old_num, missing_dict cols new_num)
      else if merge_status = VStr ''right_only''
        then (missing_dict cols old_num, build_side_dict row cols ''_new'' new_num)
      else compare_dicts new_num group_max
             (build_side_dict row cols ''_old'' old_num)
             (build_side_dict row cols ''_new'' new_num))"

section \<open>Version pairs of one group\<close>

text \<open>
  \<^verbatim>\<open>group_data.sort_values("DET_ROW_NUM")\<close>: the sort of one column. pandas puts the rows
  with a null version last, in their order, and sorts the others with the quicksort of
  numpy, which compares the values as Python does, so that integers beside strings raise
  \<^verbatim>\<open>TypeError\<close>. Quicksort is not stable: the order in which it leaves rows of the same
  version is not specified. The model takes the sort of the rows without null as a
  parameter \<open>qs\<close>, of which the theorems assume \<open>sorts qs\<close> only.
\<close>

definition version :: "dict \<Rightarrow> val" where
  "version r = at r ''DET_ROW_NUM''"

definition sorts :: "(dict list \<Rightarrow> dict list) \<Rightarrow> bool" where
  "sorts qs = (\<forall>rs. mset (qs rs) = mset rs \<and> sorted (map (\<lambda>r. val_key (version r)) (qs rs)))"

definition group_sort :: "(dict list \<Rightarrow> dict list) \<Rightarrow> dict list \<Rightarrow> error + dict list" where
  "group_sort qs group_data =
     (let non_nans = filter (\<lambda>r. version r \<noteq> VNaN) group_data;
          nans = filter (\<lambda>r. version r = VNaN) group_data
      in if list_ex (\<lambda>r. is_int (version r)) non_nans \<and> list_ex (\<lambda>r. is_str (version r)) non_nans
           then Inl TypeError
         else Inr (qs non_nans @ nans))"

text \<open>The first occurrences of a list, in order: \<^verbatim>\<open>Series.unique()\<close>, and the union of
  columns that pandas builds.\<close>

definition uniq :: "'a list \<Rightarrow> 'a list" where
  "uniq xs = rev (remdups (rev xs))"

text \<open>
  \<^verbatim>\<open>sorted(...)\<close> and \<^verbatim>\<open>max(...)\<close> on a list of versions. Python compares integers with
  integers and strings with strings; a string beside anything else raises \<^verbatim>\<open>TypeError\<close>.
  Integers beside a null are floating point numbers in pandas, and two nulls are
  comparable or not as they are \<^verbatim>\<open>NaN\<close> or \<^verbatim>\<open>None\<close>: there the model stops. A list of one
  element is compared with nothing. \<^verbatim>\<open>max\<close> of an empty list raises \<^verbatim>\<open>ValueError\<close>.
\<close>

definition py_sorted :: "val list \<Rightarrow> error + val list" where
  "py_sorted vs =
     (if length vs \<le> 1 then Inr vs
      else if list_all is_int vs \<or> list_all is_str vs then Inr (sort_key val_key vs)
      else if list_ex is_str vs then Inl TypeError
      else Inl Unmodelled)"

definition py_max :: "val list \<Rightarrow> error + val" where
  "py_max vs =
     (if vs = [] then Inl ValueError
      else if length vs = 1 then Inr (hd vs)
      else if list_all is_int vs \<or> list_all is_str vs
        then Inr (fold (\<lambda>y m. if val_key m < val_key y then y else m) (tl vs) (hd vs))
      else if list_ex is_str vs then Inl TypeError
      else Inl Unmodelled)"

text \<open>A loop whose body may raise: the first error ends it.\<close>

fun traverse :: "('a \<Rightarrow> error + 'b) \<Rightarrow> 'a list \<Rightarrow> error + 'b list" where
  "traverse f [] = Inr []"
| "traverse f (x # xs) =
     (case f x of
        Inl e \<Rightarrow> Inl e
      | Inr y \<Rightarrow> (case traverse f xs of Inl e \<Rightarrow> Inl e | Inr ys \<Rightarrow> Inr (y # ys)))"

text \<open>The rows \<^verbatim>\<open>group_sorted[group_sorted["DET_ROW_NUM"] == num]\<close>: in pandas a null
  equals nothing, not even a null.\<close>

definition rows_at :: "dict list \<Rightarrow> val \<Rightarrow> dict list" where
  "rows_at rs num = filter (\<lambda>r. version r = num \<and> num \<noteq> VNaN) rs"

text \<open>One turn of \<^verbatim>\<open>for i in range(len(unique_nums) - 1)\<close>: the pairs of dictionaries of
  the version pair \<open>(old_num, new_num)\<close>.\<close>

definition compare_versions ::
  "string list \<Rightarrow> val \<Rightarrow> dict list \<Rightarrow> val \<times> val \<Rightarrow> error + (dict \<times> dict) list" where
  "compare_versions cols group_max group_sorted nums =
     (let old_num = fst nums; new_num = snd nums;
          sub_old = rows_at group_sorted old_num;
          sub_new = rows_at group_sorted new_num
      in case outer_merge cols sub_old sub_new of
           Inl e \<Rightarrow> Inl e
         | Inr merged \<Rightarrow> Inr (map (diff_of_row cols group_max old_num new_num) merged))"

definition version_pairs :: "val list \<Rightarrow> (val \<times> val) list" where
  "version_pairs unique_nums = zip unique_nums (tl unique_nums)"

text \<open>The body of \<^verbatim>\<open>for group_keys, group_data in grouped\<close> up to the pairs of
  dictionaries.\<close>

definition group_diffs ::
  "(dict list \<Rightarrow> dict list) \<Rightarrow> string list \<Rightarrow> dict list \<Rightarrow> error + (dict \<times> dict) list" where
  "group_diffs qs cols group_data =
     (case group_sort qs group_data of
        Inl e \<Rightarrow> Inl e
      | Inr group_sorted \<Rightarrow>
          (case py_sorted (uniq (map version group_sorted)) of
             Inl e \<Rightarrow> Inl e
           | Inr unique_nums \<Rightarrow>
               (case py_max unique_nums of
                  Inl e \<Rightarrow> Inl e
                | Inr group_max \<Rightarrow>
                    (case traverse (compare_versions cols group_max group_sorted)
                            (version_pairs unique_nums) of
                       Inl e \<Rightarrow> Inl e
                     | Inr pss \<Rightarrow> Inr (concat pss)))))"

section \<open>Output assembly\<close>

text \<open>
  \<^verbatim>\<open>df_diff = pd.DataFrame([old_dict, new_dict])\<close> followed by
  \<^verbatim>\<open>df_diff["GROUP_KEYS"] = [group_keys, group_keys]\<close>. The columns are the keys of the
  dictionaries. A key that one dictionary lacks, or a null value, would be a null of the
  frame, beside which pandas turns integers into floating point numbers: there the model
  stops.
\<close>

definition df_diff :: "val list \<Rightarrow> dict \<times> dict \<Rightarrow> error + cell frame" where
  "df_diff group_keys ds =
     (let old_dict = fst ds; new_dict = snd ds;
          cols = uniq (map fst old_dict @ map fst new_dict);
          mk = (\<lambda>d. AList.update ''GROUP_KEYS'' (Tuple group_keys)
                       (map (\<lambda>c. (c, Val (at d c))) cols))
      in if set (map fst old_dict) \<noteq> set (map fst new_dict)
            \<or> VNaN \<in> set (map snd old_dict) \<or> VNaN \<in> set (map snd new_dict)
           then Inl Unmodelled
         else Inr \<lparr>columns = (if ''GROUP_KEYS'' \<in> set cols then cols else cols @ [''GROUP_KEYS'']),
                   rows = [mk old_dict, mk new_dict]\<rparr>)"

definition process_group ::
  "(dict list \<Rightarrow> dict list) \<Rightarrow> string list \<Rightarrow> val list \<times> dict list \<Rightarrow> error + cell frame list" where
  "process_group qs cols g =
     (case group_diffs qs cols (snd g) of
        Inl e \<Rightarrow> Inl e
      | Inr ps \<Rightarrow> traverse (df_diff (fst g)) ps)"

text \<open>
  \<^verbatim>\<open>pd.concat(differences_list, ignore_index=True)\<close>, which raises \<^verbatim>\<open>ValueError\<close> for an
  empty list. The columns are those of the frames in the order of their first
  occurrence. Frames that differ in their columns, or that hold a null, would give
  nulls: there the model stops.
\<close>

definition null_cell :: "cell frame \<Rightarrow> bool" where
  "null_cell d = list_ex (\<lambda>r. list_ex (\<lambda>c. cell_at r c = Val VNaN) (columns d)) (rows d)"

definition pd_concat :: "cell frame list \<Rightarrow> error + cell frame" where
  "pd_concat dfs =
     (let cols = uniq (concat (map columns dfs))
      in if dfs = [] then Inl ValueError
         else if list_ex (\<lambda>d. set (columns d) \<noteq> set cols) dfs \<or> list_ex null_cell dfs
           then Inl Unmodelled
         else Inr \<lparr>columns = cols,
                   rows = map (\<lambda>r. map (\<lambda>c. (c, cell_at r c)) cols) (concat (map rows dfs))\<rparr>)"

text \<open>\<^verbatim>\<open>val_str.replace(marker, "")\<close> for a marker of two characters.\<close>

fun remove_marker :: "char \<Rightarrow> char \<Rightarrow> string \<Rightarrow> string" where
  "remove_marker a b (c # d # cs) =
     (if c = a \<and> d = b then remove_marker a b cs else c # remove_marker a b (d # cs))"
| "remove_marker a b cs = cs"

text \<open>
  \<^verbatim>\<open>int(val_str)\<close>: surrounding white space is dropped, one sign is allowed, and the
  digits may be separated by single underscores. \<open>None\<close> stands for the \<^verbatim>\<open>ValueError\<close>.
  The white space that CPython drops is the space and the characters 9 to 13; in a
  string with a character above 127 the characters 133 and 160 are read as spaces
  first. The separators 28 to 31 are not dropped.
\<close>

definition is_space :: "char \<Rightarrow> bool" where
  "is_space c = (c \<in> set [CHR '' '', CHR 0x09, CHR 0x0A, CHR 0x0B, CHR 0x0C, CHR 0x0D,
                          CHR 0x85, CHR 0xA0])"

definition is_digit :: "char \<Rightarrow> bool" where
  "is_digit c = (c \<in> set ''0123456789'')"

definition digit_val :: "char \<Rightarrow> nat" where
  "digit_val c = of_char c - 48"

fun valid_digits :: "string \<Rightarrow> bool" where
  "valid_digits [] = False"
| "valid_digits [c] = is_digit c"
| "valid_digits (c # d # cs) =
     (is_digit c \<and> (if d = CHR ''_'' then valid_digits cs else valid_digits (d # cs)))"

definition digits_value :: "string \<Rightarrow> nat" where
  "digits_value s = fold (\<lambda>c n. if c = CHR ''_'' then n else 10 * n + digit_val c) s 0"

definition parse_digits :: "string \<Rightarrow> nat option" where
  "parse_digits s = (if valid_digits s then Some (digits_value s) else None)"

definition strip :: "string \<Rightarrow> string" where
  "strip s = rev (dropWhile is_space (rev (dropWhile is_space s)))"

definition py_int :: "string \<Rightarrow> int option" where
  "py_int s =
     (case strip s of
        [] \<Rightarrow> None
      | c # cs \<Rightarrow>
          if c = CHR ''-'' then map_option (\<lambda>n. - int n) (parse_digits cs)
          else if c = CHR ''+'' then map_option int (parse_digits cs)
          else map_option int (parse_digits (c # cs)))"

text \<open>\<^verbatim>\<open>extract_num\<close>; \<open>None\<close> is the \<^verbatim>\<open>float("inf")\<close> of the source. The string of a tuple
  starts with a parenthesis, which no integer does.\<close>

definition extract_num :: "cell \<Rightarrow> int option" where
  "extract_num c =
     (case c of
        Val v \<Rightarrow> py_int (remove_marker CHR ''#'' CHR ''#''
                   (remove_marker CHR ''*'' CHR ''*'' (py_str v)))
      | Tuple ks \<Rightarrow> None)"

text \<open>The order of the cleaned values: integers by value, infinity last.\<close>

definition clean_key :: "int option \<Rightarrow> nat \<times> int" where
  "clean_key n = (case n of Some i \<Rightarrow> (0, i) | None \<Rightarrow> (1, 0))"

text \<open>
  The rest of the branch \<^verbatim>\<open>if differences_list\<close>: the \<^verbatim>\<open>_clean\<close> columns are computed from
  the sort columns the table has, the table is sorted by them (several columns: stable),
  they are dropped again, and the columns are reordered; selecting a column that the
  table lacks raises \<^verbatim>\<open>KeyError\<close>. A \<^verbatim>\<open>_clean\<close> column that holds an infinity is a column
  of floating point numbers, in which integers beyond \<^verbatim>\<open>2 ** 53\<close> are rounded: there the
  model stops.
\<close>

definition rounded :: "int option list \<Rightarrow> bool" where
  "rounded ns = (list_ex (\<lambda>n. n = None) ns
                 \<and> list_ex (\<lambda>n. case n of Some i \<Rightarrow> 2 ^ 53 < \<bar>i\<bar> | None \<Rightarrow> False) ns)"

definition assemble :: "cell frame list \<Rightarrow> error + cell frame" where
  "assemble differences_list =
     (case pd_concat differences_list of
        Inl e \<Rightarrow> Inl e
      | Inr all_diffs_df \<Rightarrow>
         (let present = filter (\<lambda>c. c \<in> set (columns all_diffs_df)) sort_columns;
              sort_cols_clean = map (\<lambda>c. c @ ''_clean'') present;
              sorted_rows = sort_key (\<lambda>r. map (\<lambda>c. clean_key (extract_num (cell_at r c))) present)
                              (rows all_diffs_df);
              kept = filter (\<lambda>c. c \<notin> set sort_cols_clean) (columns all_diffs_df);
              remaining_cols = filter (\<lambda>c. c \<notin> set desired_order) kept;
              new_order = desired_order @ remaining_cols
          in if \<not> set desired_order \<subseteq> set kept then Inl KeyError
             else if list_ex (\<lambda>c. rounded (map (\<lambda>r. extract_num (cell_at r c)) (rows all_diffs_df)))
                       present
               then Inl Unmodelled
             else Inr \<lparr>columns = new_order,
                       rows = map (\<lambda>r. map (\<lambda>c. (c, cell_at r c)) new_order) sorted_rows\<rparr>))"

section \<open>The comparator\<close>

definition differences :: "(dict list \<Rightarrow> dict list) \<Rightarrow> val frame \<Rightarrow> error + cell frame list" where
  "differences qs df =
     (case traverse (process_group qs (columns df))
             (groupby (sort_values sort_columns (rows df))) of
        Inl e \<Rightarrow> Inl e
      | Inr dss \<Rightarrow> Inr (concat dss))"

text \<open>A column that holds an integer and a null: in pandas a column of floating point
  numbers.\<close>

definition float_column :: "val frame \<Rightarrow> bool" where
  "float_column df =
     list_ex (\<lambda>c. list_ex (\<lambda>r. is_int (at r c)) (rows df) \<and> list_ex (\<lambda>r. at r c = VNaN) (rows df))
       (columns df)"

text \<open>
  The method \<^verbatim>\<open>_comparator_two_sided_merge(df)\<close>, with the sort of a group as a parameter.
  \<^verbatim>\<open>sort_values\<close> and \<^verbatim>\<open>groupby\<close> raise \<^verbatim>\<open>KeyError\<close> for a column the frame lacks. The
  report that the method writes before it returns the annotated table, and what it
  prints, are not part of the model.
\<close>

definition comparator_two_sided_merge ::
  "(dict list \<Rightarrow> dict list) \<Rightarrow> val frame \<Rightarrow> error + result" where
  "comparator_two_sided_merge qs df =
     (if \<not> set sort_columns \<subseteq> set (columns df) then Inl KeyError
      else if \<not> set id_columns \<subseteq> set (columns df) then Inl KeyError
      else if \<not> distinct (columns df) \<or> float_column df then Inl Unmodelled
      else (case differences qs df of
              Inl e \<Rightarrow> Inl e
            | Inr differences_list \<Rightarrow>
                if differences_list \<noteq> []
                  then (case assemble differences_list of
                          Inl e \<Rightarrow> Inl e
                        | Inr all_diffs_df \<Rightarrow> Inr (Styled all_diffs_df))
                  else Inr EmptyFrame))"

section \<open>The outcome of the comparison for one column\<close>

text \<open>What the loop leaves in a column, from the two values it found there.\<close>

definition old_after :: "val \<Rightarrow> val \<Rightarrow> val" where
  "old_after val_old val_new =
     (if val_old = MISSING \<and> val_new \<noteq> MISSING then val_old
      else if val_new = MISSING \<and> val_old \<noteq> MISSING then changed val_old
      else if val_old \<noteq> val_new \<and> \<not> contains ''##'' (py_str val_old)
                \<and> \<not> contains ''##'' (py_str val_new) then changed val_old
      else val_old)"

definition new_after :: "val \<Rightarrow> val \<Rightarrow> val \<Rightarrow> val \<Rightarrow> val" where
  "new_after new_num group_max val_old val_new =
     (if val_old = MISSING \<and> val_new \<noteq> MISSING then changed val_new
      else if val_new = MISSING \<and> val_old \<noteq> MISSING then val_new
      else if val_old \<noteq> val_new \<and> \<not> contains ''##'' (py_str val_old)
                \<and> \<not> contains ''##'' (py_str val_new) \<and> new_num \<noteq> group_max
        then changed val_new
      else val_new)"

section \<open>Example tables\<close>

text \<open>Tables with the version column, the identity columns and one payload column
  \<^verbatim>\<open>AMOUNT\<close>; every identity column of a row holds the same value \<open>g\<close>.\<close>

definition example_columns :: "string list" where
  "example_columns = ''DET_ROW_NUM'' # id_columns @ [''AMOUNT'']"

definition example_row :: "val \<Rightarrow> val \<Rightarrow> val \<Rightarrow> dict" where
  "example_row g v a = (''DET_ROW_NUM'', v) # map (\<lambda>c. (c, g)) id_columns @ [(''AMOUNT'', a)]"

text \<open>Scenario D of the specification: versions 1 and 2, the amount 100 and then 200.\<close>

definition scenario_D :: "val frame" where
  "scenario_D = \<lparr>columns = example_columns,
     rows = [example_row (VInt 7) (VInt 1) (VInt 100),
             example_row (VInt 7) (VInt 2) (VInt 200)]\<rparr>"

text \<open>The version and the amount of every row of a result.\<close>

definition amounts :: "error + result \<Rightarrow> (cell \<times> cell) list" where
  "amounts res =
     (case res of
        Inr (Styled t) \<Rightarrow> map (\<lambda>r. (cell_at r ''DET_ROW_NUM'', cell_at r ''AMOUNT'')) (rows t)
      | _ \<Rightarrow> [])"

section \<open>Notions used in the statements\<close>

text \<open>The value of a payload cell as a side of a difference shows it: a null reads as the missing marker.\<close>

definition present :: "val \<Rightarrow> val" where
  "present v = (if v \<noteq> VNaN then v else MISSING)"

text \<open>The dictionary of a side that comes from the input row \<open>r\<close>: the key columns as they are,
  the other columns with nulls shown as missing, and the version set.\<close>

definition side_dict :: "string list \<Rightarrow> dict \<Rightarrow> val \<Rightarrow> dict" where
  "side_dict cols r ref_num =
     AList.update ''DET_ROW_NUM'' ref_num
       (map (\<lambda>c. (c, if c \<in> set merge_key_cols then at r c else present (at r c))) cols)"

text \<open>The pairs of dictionaries of one merge key: rows of the old version alone, rows of the
  new version alone, or every combination of an old and a new row, compared.\<close>

definition pairs_for_key ::
  "string list \<Rightarrow> val \<Rightarrow> val \<Rightarrow> val \<Rightarrow> dict list \<Rightarrow> dict list \<Rightarrow> val list \<Rightarrow> (dict \<times> dict) list" where
  "pairs_for_key cols group_max old_num new_num sub_old sub_new k =
     (let ls = filter (\<lambda>r. merge_key r = k) sub_old;
          rs = filter (\<lambda>r. merge_key r = k) sub_new
      in if rs = [] then map (\<lambda>l. (side_dict cols l old_num, missing_dict cols new_num)) ls
         else if ls = [] then map (\<lambda>r. (missing_dict cols old_num, side_dict cols r new_num)) rs
         else concat (map (\<lambda>l. map (\<lambda>r. compare_dicts new_num group_max
                                          (side_dict cols l old_num) (side_dict cols r new_num)) rs) ls))"

text \<open>The pairs of dictionaries of one version pair inside a group, where every old row
  matches every new row: each old row, in turn, compared with each new row.\<close>

definition group_pairs :: "string list \<Rightarrow> val \<Rightarrow> dict list \<Rightarrow> val \<times> val \<Rightarrow> (dict \<times> dict) list" where
  "group_pairs cols group_max gs p =
     concat (map (\<lambda>l. map (\<lambda>r. compare_dicts (snd p) group_max
                                 (side_dict cols l (fst p)) (side_dict cols r (snd p)))
                         (rows_at gs (snd p)))
               (rows_at gs (fst p)))"

text \<open>The distinct versions of a group, in increasing order.\<close>

definition group_versions :: "dict list \<Rightarrow> val list" where
  "group_versions group_data = sort_key val_key (remdups (map version group_data))"

text \<open>Versions that Python can order: at most one value, or integers only, or strings
  only.\<close>

definition orderable :: "val list \<Rightarrow> bool" where
  "orderable vs = (length (remdups vs) \<le> 1 \<or> list_all is_int vs \<or> list_all is_str vs)"

text \<open>The sort by insertion, which keeps rows of the same version in their order: what
  the quicksort of numpy does on a short array.\<close>

definition insertion_sort :: "dict list \<Rightarrow> dict list" where
  "insertion_sort rs = sort_key (\<lambda>r. val_key (version r)) rs"

text \<open>A small frame for the join: the version, the three key columns and one payload column;
  key 1 only at version 1, key 2 twice at version 1 and once at version 2, key 3 only at
  version 2.\<close>

definition join_columns :: "string list" where
  "join_columns = [''DET_ROW_NUM'', ''ACC_WH_ACC_NO'', ''REL_WH_SECNDRY_CUST_NO'',
     ''REL_CUST_KIR_TYP_CDE'', ''AMOUNT'']"

definition join_row :: "val \<Rightarrow> val \<Rightarrow> val \<Rightarrow> dict" where
  "join_row k v a = [(''DET_ROW_NUM'', v), (''ACC_WH_ACC_NO'', k), (''REL_WH_SECNDRY_CUST_NO'', k),
     (''REL_CUST_KIR_TYP_CDE'', k), (''AMOUNT'', a)]"

definition join_rows :: "dict list" where
  "join_rows = [join_row (VInt 1) (VInt 1) (VInt 10), join_row (VInt 2) (VInt 1) (VInt 20),
     join_row (VInt 2) (VInt 1) (VInt 21), join_row (VInt 2) (VInt 2) (VInt 25),
     join_row (VInt 3) (VInt 2) (VInt 30)]"

text \<open>A group with two rows at version 1, in both orders of these rows.\<close>

definition duplicate_table :: "val frame" where
  "duplicate_table = \<lparr>columns = example_columns,
     rows = [example_row (VInt 7) (VInt 1) (VInt 100),
             example_row (VInt 7) (VInt 1) (VInt 150),
             example_row (VInt 7) (VInt 2) (VInt 200)]\<rparr>"

definition duplicate_table_permuted :: "val frame" where
  "duplicate_table_permuted = \<lparr>columns = example_columns,
     rows = [example_row (VInt 7) (VInt 1) (VInt 150),
             example_row (VInt 7) (VInt 1) (VInt 100),
             example_row (VInt 7) (VInt 2) (VInt 200)]\<rparr>"

text \<open>Scenario D with its rows in the other order.\<close>

definition scenario_D_permuted :: "val frame" where
  "scenario_D_permuted = \<lparr>columns = example_columns,
     rows = [example_row (VInt 7) (VInt 2) (VInt 200),
             example_row (VInt 7) (VInt 1) (VInt 100)]\<rparr>"

text \<open>Scenario D with the payload column in front of the version and identity columns.\<close>

definition payload_first :: "val frame" where
  "payload_first = \<lparr>columns = ''AMOUNT'' # ''DET_ROW_NUM'' # id_columns,
     rows = [(''AMOUNT'', VInt 100) # (''DET_ROW_NUM'', VInt 1) # map (\<lambda>c. (c, VInt 7)) id_columns,
             (''AMOUNT'', VInt 200) # (''DET_ROW_NUM'', VInt 2) # map (\<lambda>c. (c, VInt 7)) id_columns]\<rparr>"

text \<open>A row of a result over the example columns.\<close>

definition example_out_row :: "val \<Rightarrow> val \<Rightarrow> val \<Rightarrow> (string \<times> cell) list" where
  "example_out_row g v a =
     (''DET_ROW_NUM'', Val v) # map (\<lambda>c. (c, Val g)) id_columns
       @ [(''AMOUNT'', Val a), (''GROUP_KEYS'', Tuple (map (\<lambda>c. g) id_columns))]"

text \<open>The annotated table expected for Scenario D.\<close>

definition scenario_D_result :: "cell frame" where
  "scenario_D_result = \<lparr>columns = example_columns @ [''GROUP_KEYS''],
     rows = [example_out_row (VInt 7) (VInt 1) (VStr ''**100**''),
             example_out_row (VInt 7) (VInt 2) (VInt 200)]\<rparr>"

text \<open>The columns of a result.\<close>

definition result_columns :: "error + result \<Rightarrow> string list" where
  "result_columns res = (case res of Inr (Styled t) \<Rightarrow> columns t | _ \<Rightarrow> [])"

text \<open>The order of the columns of the final table, from the columns of the concatenated
  differences.\<close>

definition output_order :: "string list \<Rightarrow> string list" where
  "output_order cols =
     desired_order @ filter (\<lambda>c. c \<notin> set desired_order)
       (filter (\<lambda>c. c \<notin> set (map (\<lambda>c. c @ ''_clean'') sort_columns)) cols)"

text \<open>The key of the final sort: the numbers read off the sort columns of a row.\<close>

definition sort_projection :: "(string \<times> cell) list \<Rightarrow> (nat \<times> int) list" where
  "sort_projection r = map (\<lambda>c. clean_key (extract_num (cell_at r c))) sort_columns"

text \<open>A table with the example columns and no row.\<close>

definition empty_table :: "val frame" where
  "empty_table = \<lparr>columns = example_columns, rows = []\<rparr>"

section \<open>The comparison loop, column by column\<close>

lemma map_of_update_other: "c \<noteq> k \<Longrightarrow> map_of (AList.update k v d) c = map_of d c"
  by (simp add: update_conv')

lemma map_of_update_same: "map_of (AList.update k v d) k = Some v"
  by (simp add: update_conv')

lemma compare_col_other:
  "c \<noteq> col \<Longrightarrow>
     map_of (fst (compare_col nn gm col ds)) c = map_of (fst ds) c \<and>
     map_of (snd (compare_col nn gm col ds)) c = map_of (snd ds) c"
  by (simp add: compare_col_def Let_def map_of_update_other split: option.splits)

lemma fold_compare_other:
  "c \<notin> set cs \<Longrightarrow>
     map_of (fst (fold (compare_col nn gm) cs ds)) c = map_of (fst ds) c \<and>
     map_of (snd (fold (compare_col nn gm) cs ds)) c = map_of (snd ds) c"
proof (induction cs arbitrary: ds)
  case Nil
  then show ?case by simp
next
  case (Cons a cs)
  then have "c \<noteq> a" "c \<notin> set cs" by auto
  with Cons.IH [of "compare_col nn gm a ds"] compare_col_other [of c a nn gm ds]
  show ?case by simp
qed

text \<open>With distinct keys, the loop visits a column once, and what it finds there is
  what the two dictionaries held at the start.\<close>

lemma fold_compare_at:
  assumes "distinct cs" "c \<in> set cs"
  obtains ds' where
    "map_of (fst ds') c = map_of (fst ds) c"
    "map_of (snd ds') c = map_of (snd ds) c"
    "map_of (fst (fold (compare_col nn gm) cs ds)) c = map_of (fst (compare_col nn gm c ds')) c"
    "map_of (snd (fold (compare_col nn gm) cs ds)) c = map_of (snd (compare_col nn gm c ds')) c"
proof -
  from assms(2) obtain pre post where cs: "cs = pre @ c # post"
    by (meson split_list)
  with assms(1) have "c \<notin> set pre" "c \<notin> set post" by auto
  let ?ds' = "fold (compare_col nn gm) pre ds"
  have "fold (compare_col nn gm) cs ds = fold (compare_col nn gm) post (compare_col nn gm c ?ds')"
    by (simp add: cs)
  with fold_compare_other [OF \<open>c \<notin> set post\<close>, of nn gm "compare_col nn gm c ?ds'"]
       fold_compare_other [OF \<open>c \<notin> set pre\<close>, of nn gm ds]
  show thesis by (intro that [of ?ds']) simp_all
qed

lemma compare_dicts_at:
  assumes "distinct (map fst old_dict)" and "col \<noteq> ''DET_ROW_NUM''"
    and "map_of old_dict col = Some val_old" and "map_of new_dict col = Some val_new"
  shows "map_of (fst (compare_dicts new_num group_max old_dict new_dict)) col
           = Some (old_after val_old val_new)"
    and "map_of (snd (compare_dicts new_num group_max old_dict new_dict)) col
           = Some (new_after new_num group_max val_old val_new)"
proof -
  have c: "col \<in> set (map fst old_dict)"
    using assms(3) by (metis map_of_eq_None_iff option.distinct(1) set_map)
  from fold_compare_at [OF assms(1) c, of "(old_dict, new_dict)" new_num group_max]
  obtain ds' where
    o: "map_of (fst ds') col = map_of (fst (old_dict, new_dict)) col"
    and n: "map_of (snd ds') col = map_of (snd (old_dict, new_dict)) col"
    and fo: "map_of (fst (fold (compare_col new_num group_max) (map fst old_dict)
                (old_dict, new_dict))) col
             = map_of (fst (compare_col new_num group_max col ds')) col"
    and so: "map_of (snd (fold (compare_col new_num group_max) (map fst old_dict)
                (old_dict, new_dict))) col
             = map_of (snd (compare_col new_num group_max col ds')) col"
    by blast
  from o assms(3) have o': "map_of (fst ds') col = Some val_old" by simp
  from n assms(4) have n': "map_of (snd ds') col = Some val_new" by simp
  from o' have a: "at (fst ds') col = val_old" by (simp add: at_def)
  consider (appeared) "val_old = MISSING" "val_new \<noteq> MISSING"
    | (vanished) "val_new = MISSING" "val_old \<noteq> MISSING"
    | (both_missing) "val_old = MISSING" "val_new = MISSING"
    | (differ) "val_old \<noteq> MISSING" "val_new \<noteq> MISSING"
        "val_old \<noteq> val_new \<and> \<not> contains ''##'' (py_str val_old)
           \<and> \<not> contains ''##'' (py_str val_new)"
    | (same) "val_old \<noteq> MISSING" "val_new \<noteq> MISSING"
        "\<not> (val_old \<noteq> val_new \<and> \<not> contains ''##'' (py_str val_old)
           \<and> \<not> contains ''##'' (py_str val_new))"
    by blast
  then have "map_of (fst (compare_col new_num group_max col ds')) col
               = Some (old_after val_old val_new)
           \<and> map_of (snd (compare_col new_num group_max col ds')) col
               = Some (new_after new_num group_max val_old val_new)"
  proof cases
    case appeared
    then show ?thesis
      using assms(2) a o' n'
      by (simp add: compare_col_def Let_def map_of_update_same old_after_def new_after_def)
  next
    case vanished
    then show ?thesis
      using assms(2) a o' n'
      by (simp add: compare_col_def Let_def map_of_update_same old_after_def new_after_def)
  next
    case both_missing
    then show ?thesis
      using assms(2) a o' n'
      by (auto simp add: compare_col_def Let_def map_of_update_same old_after_def new_after_def)
  next
    case differ
    then show ?thesis
      using assms(2) a o' n'
      by (simp add: compare_col_def Let_def map_of_update_same old_after_def new_after_def)
  next
    case same
    then show ?thesis
      using assms(2) a o' n'
      by (auto simp add: compare_col_def Let_def map_of_update_same old_after_def new_after_def)
  qed
  with fo so
  show "map_of (fst (compare_dicts new_num group_max old_dict new_dict)) col
           = Some (old_after val_old val_new)"
    and "map_of (snd (compare_dicts new_num group_max old_dict new_dict)) col
           = Some (new_after new_num group_max val_old val_new)"
    by (simp_all add: compare_dicts_def)
qed

lemma missing_contains: "contains ''##'' (py_str MISSING)"
  by (simp add: MISSING_def)

lemma changed_neq: "changed v \<noteq> v"
proof (cases v)
  case (VStr s)
  have "length (''**'' @ s @ ''**'') \<noteq> length s" by simp
  then have "''**'' @ s @ ''**'' \<noteq> s" by metis
  with VStr show ?thesis by (simp add: changed_def)
qed (simp_all add: changed_def)

section \<open>Field-level classification\<close>



text \<open>
  Claim C9. In the comparison of a row present on both sides, for a column other than
  the version column whose two values differ and are both different from the exact
  missing marker: the old value is wrapped as changed if and only if neither string
  form contains \<^verbatim>\<open>##\<close>; when a string form contains \<^verbatim>\<open>##\<close> anywhere, both values stay as
  they were, as for the data values \<^verbatim>\<open>A##B\<close> and \<^verbatim>\<open>C\<close>.
\<close>

theorem double_hash_skips_changed_marking:
  assumes "distinct (map fst old_dict)" and "col \<noteq> ''DET_ROW_NUM''"
    and "map_of old_dict col = Some val_old" and "map_of new_dict col = Some val_new"
    and "val_old \<noteq> val_new" and "val_old \<noteq> MISSING" and "val_new \<noteq> MISSING"
  shows "(map_of (fst (compare_dicts new_num group_max old_dict new_dict)) col
            = Some (changed val_old))
           = (\<not> contains ''##'' (py_str val_old) \<and> \<not> contains ''##'' (py_str val_new))
       \<and> (contains ''##'' (py_str val_old) \<or> contains ''##'' (py_str val_new) \<longrightarrow>
            map_of (fst (compare_dicts new_num group_max old_dict new_dict)) col = Some val_old
          \<and> map_of (snd (compare_dicts new_num group_max old_dict new_dict)) col = Some val_new)"
  using compare_dicts_at [OF assms(1-4), of new_num group_max] assms(5-7)
        changed_neq [of val_old]
  by (auto simp add: old_after_def new_after_def)

theorem double_hash_skips_changed_marking_witness:
  "map_of (fst (compare_dicts (VInt 2) (VInt 3) [(''NAME'', VStr ''A##B'')] [(''NAME'', VStr ''C'')]))
      ''NAME'' = Some (VStr ''A##B'')
   \<and> map_of (snd (compare_dicts (VInt 2) (VInt 3) [(''NAME'', VStr ''A##B'')] [(''NAME'', VStr ''C'')]))
      ''NAME'' = Some (VStr ''C'')"
  using double_hash_skips_changed_marking [of "[(''NAME'', VStr ''A##B'')]" "''NAME''"
          "VStr ''A##B''" "[(''NAME'', VStr ''C'')]" "VStr ''C''" "VInt 2" "VInt 3"]
  by (simp add: MISSING_def)

end
